theory Spec2Isabelle
  imports Main
begin

section \<open>JavaScript values\<close>

text \<open>
  The configuration file \<^verbatim>\<open>webpack.config.js\<close> builds one nested object literal.
  Its values are modelled by a datatype of JavaScript values: objects are association
  lists in the order the literal writes its keys (no literal of the file repeats a key),
  arrays are lists, a regular-expression literal is kept by its source text, an instance
  made by \<^verbatim>\<open>new C(args)\<close> is kept by its class and its constructor arguments, and the
  one arrow function that is stored as data (\<^verbatim>\<open>() => [Autoprefixer()]\<close>) is kept by
  the value its call returns.
\<close>

datatype plugin_class =
    HtmlWebpackPlugin
  | MiniCssExtractPlugin
  | OptimizeCSSAssetsPlugin
  | PurgecssPlugin

datatype jsval =
    JUndefined
  | JBool bool
  | JStr string
  | JRegExp string
  | JArr "jsval list"
  | JObj "(string \<times> jsval) list"
  | JNew plugin_class "jsval list"
  | JArrow jsval

text \<open>An exception, by the value thrown.\<close>

datatype js_error = Thrown jsval

subsection \<open>Reading a configuration\<close>

text \<open>
  A position inside a value is a list of steps: the key of an own property, or an array
  index. Reading gives \<open>None\<close> where the value has no such own property or element, so
  a property that is present with the value \<^verbatim>\<open>undefined\<close> (\<open>Some JUndefined\<close>) is
  told apart from a missing one.
\<close>

datatype step = Key string | Idx nat

fun js_get :: "jsval \<Rightarrow> step \<Rightarrow> jsval option" where
  "js_get (JObj kvs) (Key k) = map_of kvs k"
| "js_get (JArr xs) (Idx i) = (if i < length xs then Some (xs ! i) else None)"
| "js_get _ _ = None"

fun js_at :: "jsval \<Rightarrow> step list \<Rightarrow> jsval option" where
  "js_at v [] = Some v"
| "js_at v (s # ss) = (case js_get v s of None \<Rightarrow> None | Some w \<Rightarrow> js_at w ss)"

text \<open>The elements of an array (none for any other value).\<close>

fun elems :: "jsval \<Rightarrow> jsval list" where
  "elems (JArr xs) = xs"
| "elems _ = []"

text \<open>\<^verbatim>\<open>v instanceof C\<close> for the four plugin classes.\<close>

fun instance_of :: "plugin_class \<Rightarrow> jsval \<Rightarrow> bool" where
  "instance_of c (JNew c' args) = (c = c')"
| "instance_of c _ = False"

text \<open>An object literal with at least one own property.\<close>

fun populated :: "jsval \<Rightarrow> bool" where
  "populated (JObj kvs) = (kvs \<noteq> [])"
| "populated _ = False"

text \<open>
  The \<^verbatim>\<open>sourceMap\<close> options of a configuration, in order: for every rule of
  \<^verbatim>\<open>module.rules\<close> and every step of its \<^verbatim>\<open>use\<close> chain whose \<^verbatim>\<open>options\<close>
  object has an own property \<^verbatim>\<open>sourceMap\<close>, the value of that property.
\<close>

definition step_sourceMap :: "jsval \<Rightarrow> jsval list" where
  "step_sourceMap u =
     (case js_at u [Key ''options'', Key ''sourceMap''] of None \<Rightarrow> [] | Some v \<Rightarrow> [v])"

definition rule_steps :: "jsval \<Rightarrow> jsval list" where
  "rule_steps r = (case js_get r (Key ''use'') of None \<Rightarrow> [] | Some us \<Rightarrow> elems us)"

definition sourceMap_options :: "jsval \<Rightarrow> jsval list" where
  "sourceMap_options cfg =
     (case js_at cfg [Key ''module'', Key ''rules''] of
        None \<Rightarrow> []
      | Some rs \<Rightarrow> concat (map step_sourceMap (concat (map rule_steps (elems rs)))))"

text \<open>
  The first step of the chain that handles CSS, SASS and SCSS files: the second rule of
  \<^verbatim>\<open>module.rules\<close>, the first element of its \<^verbatim>\<open>use\<close>, the property
  \<^verbatim>\<open>loader\<close>.
\<close>

definition css_loader_head :: "step list" where
  "css_loader_head = [Key ''module'', Key ''rules'', Idx 1, Key ''use'', Idx 0, Key ''loader'']"

text \<open>
  The plugins of a configuration, the positions at which a list holds an instance of a
  class, and whether \<^verbatim>\<open>plugins\<close> or \<^verbatim>\<open>optimization.minimizer\<close> holds one.
\<close>

definition config_plugins :: "jsval \<Rightarrow> jsval list" where
  "config_plugins cfg =
     (case js_get cfg (Key ''plugins'') of None \<Rightarrow> [] | Some ps \<Rightarrow> elems ps)"

definition positions :: "plugin_class \<Rightarrow> jsval list \<Rightarrow> nat list" where
  "positions c ps = filter (\<lambda>i. instance_of c (ps ! i)) [0..<length ps]"

definition has_plugin :: "plugin_class \<Rightarrow> jsval \<Rightarrow> bool" where
  "has_plugin c cfg = list_ex (instance_of c) (config_plugins cfg)"

definition has_minimizer :: "plugin_class \<Rightarrow> jsval \<Rightarrow> bool" where
  "has_minimizer c cfg =
     (case js_at cfg [Key ''optimization'', Key ''minimizer''] of
        None \<Rightarrow> False
      | Some ms \<Rightarrow> list_ex (instance_of c) (elems ms))"

section \<open>What the module takes from outside\<close>

text \<open>
  The file requires five packages and reads \<^verbatim>\<open>process.env\<close> and \<^verbatim>\<open>__dirname\<close>.
  None of that is code of the repository, so it is a parameter of the model:
  \<^item> \<open>dirname\<close>: \<^verbatim>\<open>__dirname\<close>;
  \<^item> \<open>process_env\<close>: \<^verbatim>\<open>process.env\<close> when the module starts to load;
  \<^item> \<open>dotenv_config\<close>: what \<^verbatim>\<open>require('dotenv').config()\<close> makes of it;
  \<^item> \<open>path_join\<close>: \<^verbatim>\<open>require('path').join\<close>, at two arguments;
  \<^item> \<open>glob_sync\<close>: \<^verbatim>\<open>glob.sync(pattern, options)\<close>, which scans the file system and
    may throw;
  \<^item> \<open>MiniCssExtractPlugin_loader\<close>: the static property
    \<^verbatim>\<open>MiniCssExtractPlugin.loader\<close>;
  \<^item> \<open>Autoprefixer\<close>: the value of the call \<^verbatim>\<open>Autoprefixer()\<close>.
  The four plugin constructors only record their arguments (\<open>JNew\<close>).
\<close>

record externals =
  dirname :: string
  process_env :: "string \<rightharpoonup> string"
  dotenv_config :: "(string \<rightharpoonup> string) \<Rightarrow> (string \<rightharpoonup> string)"
  path_join :: "string \<Rightarrow> string \<Rightarrow> string"
  glob_sync :: "string \<Rightarrow> jsval \<Rightarrow> js_error + jsval"
  MiniCssExtractPlugin_loader :: jsval
  Autoprefixer :: jsval

section \<open>The module\<close>

text \<open>
  Line 29, \<^verbatim>\<open>const { WDS_HOST, WDS_PORT } = process.env\<close>, after line 19 has run
  \<^verbatim>\<open>config()\<close>: a variable that is not set reads as \<^verbatim>\<open>undefined\<close>, and the
  destructuring does not throw.
\<close>

definition env_var :: "externals \<Rightarrow> string \<Rightarrow> jsval" where
  "env_var d k =
     (case dotenv_config d (process_env d) k of None \<Rightarrow> JUndefined | Some s \<Rightarrow> JStr s)"

definition WDS_HOST :: "externals \<Rightarrow> jsval" where
  "WDS_HOST d = env_var d ''WDS_HOST''"

definition WDS_PORT :: "externals \<Rightarrow> jsval" where
  "WDS_PORT d = env_var d ''WDS_PORT''"

text \<open>Line 34: strict equality with the string \<^verbatim>\<open>'production'\<close>.\<close>

definition isProduction :: "jsval \<Rightarrow> bool" where
  "isProduction env = (env = JStr ''production'')"

text \<open>Lines 42 to 48 (\<open>output\<close> is a keyword of Isabelle, hence \<open>output_cfg\<close>).\<close>

definition entry :: jsval where
  "entry = JObj [(''index'', JStr ''./src/index.js'')]"

definition output_cfg :: "externals \<Rightarrow> jsval" where
  "output_cfg d =
     JObj [(''filename'', JStr ''bundle.js''),
           (''path'', JStr (path_join d (dirname d) ''dist''))]"

text \<open>Lines 53 to 80. The backslash of a regular expression is character 0x5C.\<close>

definition webpackModule :: "externals \<Rightarrow> jsval \<Rightarrow> jsval" where
  "webpackModule d env =
     JObj [(''rules'', JArr [
       JObj [
         (''test'', JRegExp (CHR 0x5C # ''.m?jsx?$'')),
         (''exclude'', JArr [JRegExp ''(node_modules)'']),
         (''use'', JArr [
           JObj [
             (''loader'', JStr ''babel-loader''),
             (''options'', JObj [(''presets'', JArr [JStr ''@babel/preset-env''])])]])],
       JObj [
         (''test'', JArr [JRegExp (CHR 0x5C # ''.s?css$''), JRegExp (CHR 0x5C # ''.sass$'')]),
         (''exclude'', JArr [JRegExp ''node_modules'']),
         (''use'', JArr [
           JObj [
             (''loader'',
                if isProduction env then MiniCssExtractPlugin_loader d else JStr ''style-loader''),
             (''options'',
                JObj [(''sourceMap'', JBool (if isProduction env then False else True))])],
           JObj [
             (''loader'', JStr ''css-loader''),
             (''options'',
                JObj [(''sourceMap'', JBool (if isProduction env then False else True))])],
           JObj [
             (''loader'', JStr ''postcss-loader''),
             (''options'', JObj [(''plugins'', JArrow (JArr [Autoprefixer d]))])],
           JObj [
             (''loader'', JStr ''sass-loader''),
             (''options'',
                JObj [(''sourceMap'', JBool (if isProduction env then False else True))])]])]])]"

text \<open>
  Lines 85 to 101. The list is built once, when the module loads; the scan of the source
  tree is the one call of the file that may throw, and then the module does not load.
\<close>

definition plugins :: "externals \<Rightarrow> js_error + jsval" where
  "plugins d =
     (case glob_sync d (path_join d (dirname d) ''src'' @ ''/**/*'')
                       (JObj [(''nodir'', JBool True)]) of
        Inl e \<Rightarrow> Inl e
      | Inr paths \<Rightarrow>
          Inr (JArr [
            JNew HtmlWebpackPlugin
              [JObj [(''title'', JStr ''Webpack Demo''),
                     (''template'', JStr ''src/templates/index.html'')]],
            JNew MiniCssExtractPlugin [JObj [(''filename'', JStr ''[name].css'')]],
            JNew PurgecssPlugin [JObj [(''paths'', paths)]]]))"

text \<open>Lines 106 to 108.\<close>

definition optimize :: jsval where
  "optimize = JObj [(''minimizer'', JArr [JNew OptimizeCSSAssetsPlugin [JObj []]])]"

text \<open>Lines 113 to 122.\<close>

definition devServer :: "externals \<Rightarrow> jsval" where
  "devServer d =
     JObj [(''host'', WDS_HOST d),
           (''port'', WDS_PORT d),
           (''open'', JBool False),
           (''historyApiFallback'', JBool True),
           (''overlay'', JBool True),
           (''contentBase'', JStr (path_join d (dirname d) ''dist''))]"

text \<open>
  Lines 129 to 138. Loading the module either throws or gives the exported function,
  which takes \<^verbatim>\<open>env\<close> and \<^verbatim>\<open>argv\<close>. A call of a JavaScript function returns or
  throws, so the function's result is a sum as well; its body has no statement that
  throws.
\<close>

definition module_exports ::
  "externals \<Rightarrow> js_error + (jsval \<Rightarrow> jsval \<Rightarrow> js_error + jsval)" where
  "module_exports d =
     (case plugins d of
        Inl e \<Rightarrow> Inl e
      | Inr ps \<Rightarrow>
          Inr (\<lambda>env argv. Inr (JObj [
            (''mode'', env),
            (''entry'', entry),
            (''output'', output_cfg d),
            (''plugins'', ps),
            (''module'', webpackModule d env),
            (''optimization'', if isProduction env then optimize else JObj []),
            (''devServer'', if isProduction env then JObj [] else devServer d),
            (''devtool'',
               if isProduction env then JBool False
               else JStr ''cheal-module-eval-source-map'')])))"

text \<open>Node loads the module, then webpack calls what it exports, once.\<close>

definition load_and_call :: "externals \<Rightarrow> jsval \<Rightarrow> jsval \<Rightarrow> js_error + jsval" where
  "load_and_call d env argv =
     (case module_exports d of Inl e \<Rightarrow> Inl e | Inr f \<Rightarrow> f env argv)"

section \<open>An example environment\<close>

text \<open>
  A project in \<^verbatim>\<open>/app\<close> with two source files, no \<^verbatim>\<open>.env\<close> file and neither
  \<^verbatim>\<open>WDS_HOST\<close> nor \<^verbatim>\<open>WDS_PORT\<close> set; the theorems below are instantiated with it.
\<close>

definition example_externals :: externals where
  "example_externals =
     \<lparr> dirname = ''/app'',
       process_env = [''HOME'' \<mapsto> ''/root''],
       dotenv_config = (\<lambda>e. e),
       path_join = (\<lambda>a b. a @ ''/'' @ b),
       glob_sync = (\<lambda>pat opts.
          Inr (JArr [JStr ''/app/src/index.js'', JStr ''/app/src/templates/index.html''])),
       MiniCssExtractPlugin_loader = JStr ''/app/node_modules/mini-css-extract-plugin/dist/loader.js'',
       Autoprefixer = JObj [(''postcssPlugin'', JStr ''autoprefixer'')] \<rparr>"

text \<open>The same project with both variables set in the environment.\<close>

definition example_externals_wds :: externals where
  "example_externals_wds =
     example_externals \<lparr> process_env := [''WDS_HOST'' \<mapsto> ''0.0.0.0'', ''WDS_PORT'' \<mapsto> ''3000''] \<rparr>"

section \<open>Shared lemmas\<close>

text \<open>What a loaded module exports, and what its plugin list is.\<close>

lemma module_exports_Inr:
  assumes "module_exports d = Inr f"
  obtains ps where "plugins d = Inr ps"
    and "f = (\<lambda>env argv. Inr (JObj [
            (''mode'', env),
            (''entry'', entry),
            (''output'', output_cfg d),
            (''plugins'', ps),
            (''module'', webpackModule d env),
            (''optimization'', if isProduction env then optimize else JObj []),
            (''devServer'', if isProduction env then JObj [] else devServer d),
            (''devtool'',
               if isProduction env then JBool False
               else JStr ''cheal-module-eval-source-map'')]))"
  using assms by (auto simp: module_exports_def split: sum.splits)

lemma plugins_Inr:
  assumes "plugins d = Inr ps"
  obtains paths where "ps = JArr [
            JNew HtmlWebpackPlugin
              [JObj [(''title'', JStr ''Webpack Demo''),
                     (''template'', JStr ''src/templates/index.html'')]],
            JNew MiniCssExtractPlugin [JObj [(''filename'', JStr ''[name].css'')]],
            JNew PurgecssPlugin [JObj [(''paths'', paths)]]]"
  using assms by (auto simp: plugins_def split: sum.splits)

lemma plugins_classes:
  assumes "plugins d = Inr arr"
  obtains h m p where "arr = JArr [h, m, p]"
    and "instance_of HtmlWebpackPlugin h"
    and "instance_of MiniCssExtractPlugin m"
    and "instance_of PurgecssPlugin p"
  using assms by (auto elim!: plugins_Inr)

lemma instance_of_unique: "instance_of c v \<Longrightarrow> instance_of c' v = (c' = c)"
  by (cases v) auto

lemma positions_3:
  "positions c [h, m, p] =
     (if instance_of c h then [0] else []) @
     (if instance_of c m then [1] else []) @
     (if instance_of c p then [2] else [])"
  by (simp add: positions_def upt_rec [of 0] upt_rec [of 1] upt_rec [of 2])

lemma sourceMap_options_webpackModule:
  "js_get cfg (Key ''module'') = Some (webpackModule d env) \<Longrightarrow>
   sourceMap_options cfg = replicate 3 (JBool (\<not> isProduction env))"
  by (simp add: sourceMap_options_def webpackModule_def rule_steps_def step_sourceMap_def
      numeral_3_eq_3)

lemma three_alike:
  assumes "length xs = 3" and "\<forall>v \<in> set xs. v = a"
  shows "xs = [a, a, a]"
  using assms by (auto simp: numeral_3_eq_3 length_Suc_conv)

text \<open>The module loads in the example environment.\<close>

lemma example_loads: "\<exists>f. module_exports example_externals = Inr f"
  by (simp add: module_exports_def plugins_def example_externals_def)

text \<open>
  If the scan of the source tree throws, the module does not load and nothing is
  exported.
\<close>

lemma glob_failure_propagates:
  assumes "glob_sync d (path_join d (dirname d) ''src'' @ ''/**/*'')
             (JObj [(''nodir'', JBool True)]) = Inl e"
  shows "module_exports d = Inl e" and "load_and_call d env argv = Inl e"
  using assms by (simp_all add: load_and_call_def module_exports_def plugins_def)

text \<open>With both variables set, the dev-server block carries them as strings.\<close>

lemma WDS_variables_set:
  "map_sum id (\<lambda>cfg. (js_at cfg [Key ''devServer'', Key ''host''],
                       js_at cfg [Key ''devServer'', Key ''port'']))
     (load_and_call example_externals_wds (JStr ''development'') (JObj []))
   = Inr (Some (JStr ''0.0.0.0''), Some (JStr ''3000''))"
  by (simp add: load_and_call_def module_exports_def plugins_def example_externals_wds_def
      example_externals_def isProduction_def devServer_def WDS_HOST_def WDS_PORT_def
      env_var_def)

section \<open>Production and development\<close>

text \<open>
  C1. For \<^verbatim>\<open>env = 'production'\<close> the call of the exported function returns a
  configuration whose \<^verbatim>\<open>devServer\<close> is the empty object, whose
  \<^verbatim>\<open>optimization.minimizer\<close> is an array of exactly one entry (an instance of
  \<^verbatim>\<open>OptimizeCSSAssetsPlugin\<close>), and whose CSS chain starts with
  \<^verbatim>\<open>MiniCssExtractPlugin.loader\<close>. That value belongs to the package, so it is not
  \<^verbatim>\<open>'style-loader'\<close> exactly when the package's loader is not that string.
\<close>

theorem production_config:
  assumes "module_exports d = Inr f"
  shows "\<exists>cfg. f (JStr ''production'') argv = Inr cfg
     \<and> js_at cfg [Key ''devServer''] = Some (JObj [])
     \<and> (\<exists>m. js_at cfg [Key ''optimization'', Key ''minimizer''] = Some (JArr [m])
            \<and> instance_of OptimizeCSSAssetsPlugin m)
     \<and> js_at cfg css_loader_head = Some (MiniCssExtractPlugin_loader d)
     \<and> (MiniCssExtractPlugin_loader d \<noteq> JStr ''style-loader''
          \<longrightarrow> js_at cfg css_loader_head \<noteq> Some (JStr ''style-loader''))"
proof -
  from assms obtain ps where f: "f (JStr ''production'') argv = Inr (JObj [
            (''mode'', JStr ''production''),
            (''entry'', entry),
            (''output'', output_cfg d),
            (''plugins'', ps),
            (''module'', webpackModule d (JStr ''production'')),
            (''optimization'', optimize),
            (''devServer'', JObj []),
            (''devtool'', JBool False)])"
    by (auto elim!: module_exports_Inr simp: isProduction_def)
  show ?thesis
    unfolding f by (simp add: css_loader_head_def webpackModule_def optimize_def isProduction_def)
qed

theorem production_config_witness:
  "\<exists>f cfg. module_exports example_externals = Inr f
     \<and> f (JStr ''production'') (JObj []) = Inr cfg
     \<and> js_at cfg [Key ''devServer''] = Some (JObj [])
     \<and> (\<exists>m. js_at cfg [Key ''optimization'', Key ''minimizer''] = Some (JArr [m])
            \<and> instance_of OptimizeCSSAssetsPlugin m)
     \<and> js_at cfg css_loader_head = Some (MiniCssExtractPlugin_loader example_externals)
     \<and> js_at cfg css_loader_head \<noteq> Some (JStr ''style-loader'')"
proof -
  from example_loads obtain f where f: "module_exports example_externals = Inr f" ..
  have l: "MiniCssExtractPlugin_loader example_externals \<noteq> JStr ''style-loader''"
    by (simp add: example_externals_def)
  from production_config [OF f, of "JObj []"] l f show ?thesis
    by blast
qed

text \<open>
  C2. For \<^verbatim>\<open>env = 'development'\<close> the returned configuration has the empty object as
  \<^verbatim>\<open>optimization\<close>, \<^verbatim>\<open>devServer.historyApiFallback\<close> equal to \<^verbatim>\<open>true\<close>, and a CSS
  chain that starts with \<^verbatim>\<open>'style-loader'\<close>.
\<close>

theorem development_config:
  assumes "module_exports d = Inr f"
  shows "\<exists>cfg. f (JStr ''development'') argv = Inr cfg
     \<and> js_at cfg [Key ''optimization''] = Some (JObj [])
     \<and> js_at cfg [Key ''devServer'', Key ''historyApiFallback''] = Some (JBool True)
     \<and> js_at cfg css_loader_head = Some (JStr ''style-loader'')"
  using assms
  by (elim module_exports_Inr)
     (simp add: isProduction_def devServer_def webpackModule_def css_loader_head_def)

theorem development_config_witness:
  "\<exists>f cfg. module_exports example_externals = Inr f
     \<and> f (JStr ''development'') (JObj []) = Inr cfg
     \<and> js_at cfg [Key ''optimization''] = Some (JObj [])
     \<and> js_at cfg [Key ''devServer'', Key ''historyApiFallback''] = Some (JBool True)
     \<and> js_at cfg css_loader_head = Some (JStr ''style-loader'')"
proof -
  from example_loads obtain f where f: "module_exports example_externals = Inr f" ..
  from development_config [OF f, of "JObj []"] f show ?thesis
    by blast
qed

text \<open>
  C3. Three steps of the returned rules carry a \<^verbatim>\<open>sourceMap\<close> option. For
  \<^verbatim>\<open>'production'\<close> every one of them is \<^verbatim>\<open>false\<close>, for \<^verbatim>\<open>'development'\<close> every
  one of them is \<^verbatim>\<open>true\<close>.
\<close>

theorem sourceMap_by_mode:
  assumes "module_exports d = Inr f"
  shows "(\<exists>cfg. f (JStr ''production'') argv = Inr cfg
            \<and> length (sourceMap_options cfg) = 3
            \<and> (\<forall>v \<in> set (sourceMap_options cfg). v = JBool False))
       \<and> (\<exists>cfg. f (JStr ''development'') argv = Inr cfg
            \<and> length (sourceMap_options cfg) = 3
            \<and> (\<forall>v \<in> set (sourceMap_options cfg). v = JBool True))"
proof -
  have *: "\<exists>cfg. f env argv = Inr cfg
             \<and> sourceMap_options cfg = replicate 3 (JBool (\<not> isProduction env))" for env
  proof -
    from assms obtain cfg where "f env argv = Inr cfg"
      and "js_get cfg (Key ''module'') = Some (webpackModule d env)"
      by (auto elim!: module_exports_Inr)
    then show ?thesis
      using sourceMap_options_webpackModule by blast
  qed
  from * [of "JStr ''production''"] * [of "JStr ''development''"] show ?thesis
    by (auto simp: isProduction_def)
qed

theorem sourceMap_by_mode_witness:
  "\<exists>f prod dev. module_exports example_externals = Inr f
     \<and> f (JStr ''production'') (JObj []) = Inr prod
     \<and> sourceMap_options prod = [JBool False, JBool False, JBool False]
     \<and> f (JStr ''development'') (JObj []) = Inr dev
     \<and> sourceMap_options dev = [JBool True, JBool True, JBool True]"
proof -
  from example_loads obtain f where f: "module_exports example_externals = Inr f" ..
  from sourceMap_by_mode [OF f, of "JObj []"] obtain prod dev
    where "f (JStr ''production'') (JObj []) = Inr prod"
      and "length (sourceMap_options prod) = 3"
      and "\<forall>v \<in> set (sourceMap_options prod). v = JBool False"
      and "f (JStr ''development'') (JObj []) = Inr dev"
      and "length (sourceMap_options dev) = 3"
      and "\<forall>v \<in> set (sourceMap_options dev). v = JBool True"
    by blast
  with f show ?thesis
    by (blast dest: three_alike)
qed

text \<open>
  C4. Let the module have loaded, with neither \<^verbatim>\<open>WDS_HOST\<close> nor \<^verbatim>\<open>WDS_PORT\<close> in
  \<^verbatim>\<open>process.env\<close> when line 29 reads it. Then the call with \<^verbatim>\<open>'development'\<close>
  returns (it does not throw), and the dev-server block of the result has the own
  properties \<^verbatim>\<open>host\<close> and \<^verbatim>\<open>port\<close> with the value \<^verbatim>\<open>undefined\<close> and \<^verbatim>\<open>open\<close>
  with the value \<^verbatim>\<open>false\<close>.
\<close>

theorem absent_WDS_variables:
  assumes "module_exports d = Inr f"
    and "dotenv_config d (process_env d) ''WDS_HOST'' = None"
    and "dotenv_config d (process_env d) ''WDS_PORT'' = None"
  shows "\<exists>cfg. f (JStr ''development'') argv = Inr cfg
     \<and> js_at cfg [Key ''devServer'', Key ''host''] = Some JUndefined
     \<and> js_at cfg [Key ''devServer'', Key ''port''] = Some JUndefined
     \<and> js_at cfg [Key ''devServer'', Key ''open''] = Some (JBool False)"
  using assms
  by (elim module_exports_Inr)
     (simp add: isProduction_def devServer_def WDS_HOST_def WDS_PORT_def env_var_def)

theorem absent_WDS_variables_witness:
  "\<exists>f cfg. module_exports example_externals = Inr f
     \<and> dotenv_config example_externals (process_env example_externals) ''WDS_HOST'' = None
     \<and> dotenv_config example_externals (process_env example_externals) ''WDS_PORT'' = None
     \<and> f (JStr ''development'') (JObj []) = Inr cfg
     \<and> js_at cfg [Key ''devServer'', Key ''host''] = Some JUndefined
     \<and> js_at cfg [Key ''devServer'', Key ''port''] = Some JUndefined
     \<and> js_at cfg [Key ''devServer'', Key ''open''] = Some (JBool False)"
proof -
  from example_loads obtain f where f: "module_exports example_externals = Inr f" ..
  have h: "dotenv_config example_externals (process_env example_externals) ''WDS_HOST'' = None"
    and p: "dotenv_config example_externals (process_env example_externals) ''WDS_PORT'' = None"
    by (simp_all add: example_externals_def)
  from absent_WDS_variables [OF f h p, of "JObj []"] f h p show ?thesis
    by blast
qed

section \<open>Every other mode\<close>

text \<open>
  C5. Let \<^verbatim>\<open>env\<close> be any value other than \<^verbatim>\<open>'production'\<close>. The configuration
  returned for it and the one returned for \<^verbatim>\<open>'development'\<close> make the same selection
  in every conditional: the head of the CSS chain is \<^verbatim>\<open>'style-loader'\<close>, the three
  source-map options are \<^verbatim>\<open>true\<close>, \<^verbatim>\<open>optimization\<close> is the empty object,
  \<^verbatim>\<open>devServer\<close> is the dev-server block and \<^verbatim>\<open>devtool\<close> is the same string. The two
  configurations differ in the property \<^verbatim>\<open>mode\<close> at most.
\<close>

theorem other_modes_as_development:
  assumes "module_exports d = Inr f" and "env \<noteq> JStr ''production''"
  shows "\<exists>cfg dev. f env argv = Inr cfg \<and> f (JStr ''development'') argv' = Inr dev
     \<and> js_at cfg css_loader_head = Some (JStr ''style-loader'')
     \<and> js_at dev css_loader_head = Some (JStr ''style-loader'')
     \<and> sourceMap_options cfg = replicate 3 (JBool True)
     \<and> sourceMap_options dev = replicate 3 (JBool True)
     \<and> js_at cfg [Key ''optimization''] = Some (JObj [])
     \<and> js_at dev [Key ''optimization''] = Some (JObj [])
     \<and> js_at cfg [Key ''devServer''] = Some (devServer d)
     \<and> js_at dev [Key ''devServer''] = Some (devServer d)
     \<and> js_at cfg [Key ''devtool''] = Some (JStr ''cheal-module-eval-source-map'')
     \<and> js_at dev [Key ''devtool''] = Some (JStr ''cheal-module-eval-source-map'')
     \<and> js_at cfg [Key ''module''] = js_at dev [Key ''module'']
     \<and> (\<forall>k. k \<noteq> ''mode'' \<longrightarrow> js_get cfg (Key k) = js_get dev (Key k))"
proof -
  have np: "\<not> isProduction env" "\<not> isProduction (JStr ''development'')"
    using assms(2) by (simp_all add: isProduction_def)
  then have m: "webpackModule d env = webpackModule d (JStr ''development'')"
    by (simp add: webpackModule_def)
  from assms(1) obtain ps where f: "\<And>e a. f e a = Inr (JObj [
            (''mode'', e),
            (''entry'', entry),
            (''output'', output_cfg d),
            (''plugins'', ps),
            (''module'', webpackModule d e),
            (''optimization'', if isProduction e then optimize else JObj []),
            (''devServer'', if isProduction e then JObj [] else devServer d),
            (''devtool'',
               if isProduction e then JBool False
               else JStr ''cheal-module-eval-source-map'')])"
    by (auto elim!: module_exports_Inr)
  have s: "sourceMap_options (JObj [
            (''mode'', e),
            (''entry'', entry),
            (''output'', output_cfg d),
            (''plugins'', ps),
            (''module'', webpackModule d (JStr ''development'')),
            (''optimization'', JObj []),
            (''devServer'', devServer d),
            (''devtool'', JStr ''cheal-module-eval-source-map'')])
        = replicate 3 (JBool True)" for e
    using sourceMap_options_webpackModule [of _ d "JStr ''development''"] np(2) by simp
  have h: "js_at (JObj [
            (''mode'', e),
            (''entry'', entry),
            (''output'', output_cfg d),
            (''plugins'', ps),
            (''module'', webpackModule d (JStr ''development'')),
            (''optimization'', JObj []),
            (''devServer'', devServer d),
            (''devtool'', JStr ''cheal-module-eval-source-map'')]) css_loader_head
        = Some (JStr ''style-loader'')" for e
    by (simp add: css_loader_head_def webpackModule_def isProduction_def)
  show ?thesis
    unfolding f by (simp add: np m s h del: replicate.simps)
qed

theorem other_modes_as_development_witness:
  "\<exists>f cfg dev. module_exports example_externals = Inr f
     \<and> JStr ''staging'' \<noteq> JStr ''production''
     \<and> f (JStr ''staging'') (JObj []) = Inr cfg
     \<and> f (JStr ''development'') (JObj []) = Inr dev
     \<and> js_at cfg css_loader_head = js_at dev css_loader_head
     \<and> sourceMap_options cfg = sourceMap_options dev
     \<and> js_at cfg [Key ''optimization''] = js_at dev [Key ''optimization'']
     \<and> js_at cfg [Key ''devServer''] = js_at dev [Key ''devServer'']
     \<and> js_at cfg [Key ''devtool''] = js_at dev [Key ''devtool'']
     \<and> js_get cfg (Key ''entry'') = js_get dev (Key ''entry'')"
proof -
  from example_loads obtain f where f: "module_exports example_externals = Inr f" ..
  have e: "JStr ''staging'' \<noteq> JStr ''production''"
    by simp
  from other_modes_as_development [OF f e, of "JObj []" "JObj []"] obtain cfg dev
    where c: "f (JStr ''staging'') (JObj []) = Inr cfg"
      and d: "f (JStr ''development'') (JObj []) = Inr dev"
      and "js_at cfg css_loader_head = Some (JStr ''style-loader'')"
      and "js_at dev css_loader_head = Some (JStr ''style-loader'')"
      and "sourceMap_options cfg = replicate 3 (JBool True)"
      and "sourceMap_options dev = replicate 3 (JBool True)"
      and "js_at cfg [Key ''optimization''] = Some (JObj [])"
      and "js_at dev [Key ''optimization''] = Some (JObj [])"
      and "js_at cfg [Key ''devServer''] = Some (devServer example_externals)"
      and "js_at dev [Key ''devServer''] = Some (devServer example_externals)"
      and "js_at cfg [Key ''devtool''] = Some (JStr ''cheal-module-eval-source-map'')"
      and "js_at dev [Key ''devtool''] = Some (JStr ''cheal-module-eval-source-map'')"
      and k: "\<forall>k. k \<noteq> ''mode'' \<longrightarrow> js_get cfg (Key k) = js_get dev (Key k)"
    by (elim exE conjE)
  moreover from k have "js_get cfg (Key ''entry'') = js_get dev (Key ''entry'')"
    by simp
  ultimately have "JStr ''staging'' \<noteq> JStr ''production''
     \<and> f (JStr ''staging'') (JObj []) = Inr cfg
     \<and> f (JStr ''development'') (JObj []) = Inr dev
     \<and> js_at cfg css_loader_head = js_at dev css_loader_head
     \<and> sourceMap_options cfg = sourceMap_options dev
     \<and> js_at cfg [Key ''optimization''] = js_at dev [Key ''optimization'']
     \<and> js_at cfg [Key ''devServer''] = js_at dev [Key ''devServer'']
     \<and> js_at cfg [Key ''devtool''] = js_at dev [Key ''devtool'']
     \<and> js_get cfg (Key ''entry'') = js_get dev (Key ''entry'')"
    by simp
  with f show ?thesis
    by (intro exI [of _ f] exI [of _ cfg] exI [of _ dev] conjI) simp_all
qed

text \<open>
  C6. For every \<^verbatim>\<open>env\<close>, exactly one of the blocks \<^verbatim>\<open>optimization\<close> and
  \<^verbatim>\<open>devServer\<close> of the returned configuration has a property. For \<^verbatim>\<open>'production'\<close>
  it is \<^verbatim>\<open>optimization\<close>, and \<^verbatim>\<open>devServer\<close> is the empty object; for every other
  value, \<^verbatim>\<open>'development'\<close> among them, it is \<^verbatim>\<open>devServer\<close>, and
  \<^verbatim>\<open>optimization\<close> is the empty object.
\<close>

theorem exactly_one_block_populated:
  assumes "module_exports d = Inr f"
  shows "\<exists>cfg opt ds. f env argv = Inr cfg
     \<and> js_at cfg [Key ''optimization''] = Some opt
     \<and> js_at cfg [Key ''devServer''] = Some ds
     \<and> populated opt \<noteq> populated ds
     \<and> (if env = JStr ''production'' then populated opt \<and> ds = JObj []
         else opt = JObj [] \<and> populated ds)"
  using assms
  by (elim module_exports_Inr) (simp add: isProduction_def optimize_def devServer_def)

theorem exactly_one_block_populated_witness:
  "\<exists>f. module_exports example_externals = Inr f
     \<and> (\<exists>cfg opt ds. f (JStr ''production'') (JObj []) = Inr cfg
           \<and> js_at cfg [Key ''optimization''] = Some opt
           \<and> js_at cfg [Key ''devServer''] = Some ds
           \<and> populated opt \<and> \<not> populated ds \<and> ds = JObj [])
     \<and> (\<exists>cfg opt ds. f (JStr ''development'') (JObj []) = Inr cfg
           \<and> js_at cfg [Key ''optimization''] = Some opt
           \<and> js_at cfg [Key ''devServer''] = Some ds
           \<and> \<not> populated opt \<and> populated ds \<and> opt = JObj [])"
proof -
  from example_loads obtain f where f: "module_exports example_externals = Inr f" ..
  from exactly_one_block_populated [OF f, of "JStr ''production''" "JObj []"]
  obtain cfg opt ds where "f (JStr ''production'') (JObj []) = Inr cfg"
    and "js_at cfg [Key ''optimization''] = Some opt"
    and "js_at cfg [Key ''devServer''] = Some ds"
    and "populated opt \<noteq> populated ds" and "populated opt \<and> ds = JObj []"
    by (elim exE conjE) simp
  then have prod: "\<exists>cfg opt ds. f (JStr ''production'') (JObj []) = Inr cfg
           \<and> js_at cfg [Key ''optimization''] = Some opt
           \<and> js_at cfg [Key ''devServer''] = Some ds
           \<and> populated opt \<and> \<not> populated ds \<and> ds = JObj []"
    by blast
  from exactly_one_block_populated [OF f, of "JStr ''development''" "JObj []"]
  obtain cfg opt ds where "f (JStr ''development'') (JObj []) = Inr cfg"
    and "js_at cfg [Key ''optimization''] = Some opt"
    and "js_at cfg [Key ''devServer''] = Some ds"
    and "populated opt \<noteq> populated ds" and "opt = JObj [] \<and> populated ds"
    by (elim exE conjE) simp
  then have dev: "\<exists>cfg opt ds. f (JStr ''development'') (JObj []) = Inr cfg
           \<and> js_at cfg [Key ''optimization''] = Some opt
           \<and> js_at cfg [Key ''devServer''] = Some ds
           \<and> \<not> populated opt \<and> populated ds \<and> opt = JObj []"
    by blast
  from f prod dev show ?thesis
    by blast
qed

section \<open>The plugin list\<close>

text \<open>
  C7. For every \<^verbatim>\<open>env\<close>, the \<^verbatim>\<open>plugins\<close> of the returned configuration is an
  array that holds one instance of \<^verbatim>\<open>MiniCssExtractPlugin\<close> and one instance of
  \<^verbatim>\<open>PurgecssPlugin\<close>, the first at an earlier position than the second.
\<close>

theorem extraction_before_purge:
  assumes "module_exports d = Inr f"
  shows "\<exists>cfg ps i j. f env argv = Inr cfg
     \<and> js_at cfg [Key ''plugins''] = Some (JArr ps)
     \<and> positions MiniCssExtractPlugin ps = [i]
     \<and> positions PurgecssPlugin ps = [j]
     \<and> i < j \<and> j < length ps"
proof -
  from assms obtain arr where arr: "plugins d = Inr arr"
    and f: "f env argv = Inr (JObj [
            (''mode'', env),
            (''entry'', entry),
            (''output'', output_cfg d),
            (''plugins'', arr),
            (''module'', webpackModule d env),
            (''optimization'', if isProduction env then optimize else JObj []),
            (''devServer'', if isProduction env then JObj [] else devServer d),
            (''devtool'',
               if isProduction env then JBool False
               else JStr ''cheal-module-eval-source-map'')])"
    by (auto elim!: module_exports_Inr)
  from arr obtain h m p where ps: "arr = JArr [h, m, p]"
    and cls: "instance_of HtmlWebpackPlugin h" "instance_of MiniCssExtractPlugin m"
      "instance_of PurgecssPlugin p"
    by (rule plugins_classes)
  have "positions MiniCssExtractPlugin [h, m, p] = [1]"
    and "positions PurgecssPlugin [h, m, p] = [2]"
    by (simp_all add: positions_3 cls instance_of_unique [OF cls(1)]
        instance_of_unique [OF cls(2)] instance_of_unique [OF cls(3)])
  then show ?thesis
    unfolding f ps by simp
qed

theorem extraction_before_purge_witness:
  "\<exists>f cfg ps i j. module_exports example_externals = Inr f
     \<and> f (JStr ''development'') (JObj []) = Inr cfg
     \<and> js_at cfg [Key ''plugins''] = Some (JArr ps)
     \<and> positions MiniCssExtractPlugin ps = [i]
     \<and> positions PurgecssPlugin ps = [j]
     \<and> i < j \<and> j < length ps"
proof -
  from example_loads obtain f where f: "module_exports example_externals = Inr f" ..
  from extraction_before_purge [OF f, of "JStr ''development''" "JObj []"] f show ?thesis
    by blast
qed

text \<open>
  C10, as the code has it. For every \<^verbatim>\<open>env\<close> the property \<^verbatim>\<open>mode\<close> of the returned
  configuration is \<^verbatim>\<open>env\<close> itself, and \<^verbatim>\<open>plugins\<close> is one and the same array of
  three instances, of \<^verbatim>\<open>HtmlWebpackPlugin\<close>, \<^verbatim>\<open>MiniCssExtractPlugin\<close> and
  \<^verbatim>\<open>PurgecssPlugin\<close> in this order: the extraction and the purge plugin are there in
  development too. The CSS minimizer, \<^verbatim>\<open>OptimizeCSSAssetsPlugin\<close>, is in no mode
  among the plugins; it is in \<^verbatim>\<open>optimization.minimizer\<close> exactly when \<^verbatim>\<open>env\<close> is
  \<^verbatim>\<open>'production'\<close>.
\<close>

theorem mode_verbatim_plugins_fixed:
  assumes "module_exports d = Inr f"
  shows "\<exists>h m p. instance_of HtmlWebpackPlugin h \<and> instance_of MiniCssExtractPlugin m
       \<and> instance_of PurgecssPlugin p
       \<and> (\<forall>env argv. \<exists>cfg. f env argv = Inr cfg
            \<and> js_at cfg [Key ''mode''] = Some env
            \<and> js_at cfg [Key ''plugins''] = Some (JArr [h, m, p])
            \<and> has_plugin MiniCssExtractPlugin cfg
            \<and> has_plugin PurgecssPlugin cfg
            \<and> \<not> has_plugin OptimizeCSSAssetsPlugin cfg
            \<and> (has_minimizer OptimizeCSSAssetsPlugin cfg \<longleftrightarrow> env = JStr ''production''))"
proof -
  from assms obtain arr where arr: "plugins d = Inr arr"
    and f: "\<And>env argv. f env argv = Inr (JObj [
            (''mode'', env),
            (''entry'', entry),
            (''output'', output_cfg d),
            (''plugins'', arr),
            (''module'', webpackModule d env),
            (''optimization'', if isProduction env then optimize else JObj []),
            (''devServer'', if isProduction env then JObj [] else devServer d),
            (''devtool'',
               if isProduction env then JBool False
               else JStr ''cheal-module-eval-source-map'')])"
    by (auto elim!: module_exports_Inr)
  from arr obtain h m p where ps: "arr = JArr [h, m, p]"
    and cls: "instance_of HtmlWebpackPlugin h" "instance_of MiniCssExtractPlugin m"
      "instance_of PurgecssPlugin p"
    by (rule plugins_classes)
  have "\<exists>cfg. f env argv = Inr cfg
            \<and> js_at cfg [Key ''mode''] = Some env
            \<and> js_at cfg [Key ''plugins''] = Some (JArr [h, m, p])
            \<and> has_plugin MiniCssExtractPlugin cfg
            \<and> has_plugin PurgecssPlugin cfg
            \<and> \<not> has_plugin OptimizeCSSAssetsPlugin cfg
            \<and> (has_minimizer OptimizeCSSAssetsPlugin cfg \<longleftrightarrow> env = JStr ''production'')"
    for env argv
    unfolding f ps
    by (simp add: has_plugin_def has_minimizer_def config_plugins_def isProduction_def
        optimize_def cls instance_of_unique [OF cls(1)] instance_of_unique [OF cls(2)]
        instance_of_unique [OF cls(3)])
  with cls show ?thesis by blast
qed

theorem mode_verbatim_plugins_fixed_witness:
  "\<exists>f h m p staging dev. module_exports example_externals = Inr f
     \<and> instance_of HtmlWebpackPlugin h \<and> instance_of MiniCssExtractPlugin m
     \<and> instance_of PurgecssPlugin p
     \<and> f (JStr ''staging'') (JObj []) = Inr staging
     \<and> js_at staging [Key ''mode''] = Some (JStr ''staging'')
     \<and> js_at staging [Key ''plugins''] = Some (JArr [h, m, p])
     \<and> f (JStr ''development'') (JObj []) = Inr dev
     \<and> js_at dev [Key ''mode''] = Some (JStr ''development'')
     \<and> js_at dev [Key ''plugins''] = Some (JArr [h, m, p])
     \<and> has_plugin MiniCssExtractPlugin dev
     \<and> has_plugin PurgecssPlugin dev
     \<and> \<not> has_plugin OptimizeCSSAssetsPlugin dev"
proof -
  from example_loads obtain f where f: "module_exports example_externals = Inr f" ..
  from mode_verbatim_plugins_fixed [OF f] obtain h m p
    where cls: "instance_of HtmlWebpackPlugin h" "instance_of MiniCssExtractPlugin m"
      "instance_of PurgecssPlugin p"
      and all: "\<And>env argv. \<exists>cfg. f env argv = Inr cfg
            \<and> js_at cfg [Key ''mode''] = Some env
            \<and> js_at cfg [Key ''plugins''] = Some (JArr [h, m, p])
            \<and> has_plugin MiniCssExtractPlugin cfg
            \<and> has_plugin PurgecssPlugin cfg
            \<and> \<not> has_plugin OptimizeCSSAssetsPlugin cfg
            \<and> (has_minimizer OptimizeCSSAssetsPlugin cfg \<longleftrightarrow> env = JStr ''production'')"
    by blast
  from all [of "JStr ''staging''" "JObj []"] all [of "JStr ''development''" "JObj []"] cls f
  show ?thesis
    by blast
qed

text \<open>
  C10, as it is worded, has the CSS minimizer present in development as well. In the
  example environment the configuration returned for \<^verbatim>\<open>'development'\<close> holds no
  instance of \<^verbatim>\<open>OptimizeCSSAssetsPlugin\<close>, neither among its plugins nor in
  \<^verbatim>\<open>optimization.minimizer\<close>.
\<close>

theorem minimizer_absent_in_development:
  "map_sum id (has_plugin OptimizeCSSAssetsPlugin)
     (load_and_call example_externals (JStr ''development'') (JObj [])) = Inr False
   \<and> map_sum id (has_minimizer OptimizeCSSAssetsPlugin)
     (load_and_call example_externals (JStr ''development'') (JObj [])) = Inr False"
  by (simp add: load_and_call_def module_exports_def plugins_def example_externals_def
      has_plugin_def has_minimizer_def config_plugins_def isProduction_def)

section \<open>The source-map setting and the second argument\<close>

text \<open>
  C8. The property \<^verbatim>\<open>devtool\<close> of the returned configuration is \<^verbatim>\<open>false\<close> for
  \<^verbatim>\<open>'production'\<close> and the string \<^verbatim>\<open>'cheal-module-eval-source-map'\<close> for every other
  \<^verbatim>\<open>env\<close>, \<^verbatim>\<open>'development'\<close> among them; in no mode is it the option name
  \<^verbatim>\<open>'cheap-module-eval-source-map'\<close>, of which that string is a misspelling.
\<close>

theorem devtool_value:
  assumes "module_exports d = Inr f"
  shows "\<exists>cfg. f env argv = Inr cfg
     \<and> js_at cfg [Key ''devtool''] =
         Some (if env = JStr ''production'' then JBool False
               else JStr ''cheal-module-eval-source-map'')
     \<and> js_at cfg [Key ''devtool''] \<noteq> Some (JStr ''cheap-module-eval-source-map'')"
  using assms
  by (elim module_exports_Inr) (simp add: isProduction_def)

theorem devtool_value_witness:
  "\<exists>f prod dev. module_exports example_externals = Inr f
     \<and> f (JStr ''production'') (JObj []) = Inr prod
     \<and> js_at prod [Key ''devtool''] = Some (JBool False)
     \<and> f (JStr ''development'') (JObj []) = Inr dev
     \<and> js_at dev [Key ''devtool''] = Some (JStr ''cheal-module-eval-source-map'')"
proof -
  from example_loads obtain f where f: "module_exports example_externals = Inr f" ..
  from devtool_value [OF f, of "JStr ''production''" "JObj []"] obtain prod
    where "f (JStr ''production'') (JObj []) = Inr prod"
      and "js_at prod [Key ''devtool''] = Some (JBool False)"
    by auto
  moreover
  from devtool_value [OF f, of "JStr ''development''" "JObj []"] obtain dev
    where "f (JStr ''development'') (JObj []) = Inr dev"
      and "js_at dev [Key ''devtool''] = Some (JStr ''cheal-module-eval-source-map'')"
    by auto
  ultimately show ?thesis
    using f by blast
qed

text \<open>
  C9. With the environment and \<^verbatim>\<open>env\<close> fixed, the exported function returns, and
  returns the same configuration, whatever its second argument \<^verbatim>\<open>argv\<close> is.
\<close>

theorem argv_ignored:
  assumes "module_exports d = Inr f"
  shows "f env argv1 = f env argv2 \<and> (\<exists>cfg. f env argv1 = Inr cfg)"
  using assms
  by (elim module_exports_Inr) simp

theorem argv_ignored_witness:
  "\<exists>f cfg. module_exports example_externals = Inr f
     \<and> f (JStr ''production'') (JObj []) = Inr cfg
     \<and> f (JStr ''production'') (JObj [(''watch'', JBool True)]) = Inr cfg"
proof -
  from example_loads obtain f where f: "module_exports example_externals = Inr f" ..
  from argv_ignored [OF f, of "JStr ''production''" "JObj []" "JObj [(''watch'', JBool True)]"]
  obtain cfg where "f (JStr ''production'') (JObj []) = Inr cfg"
    and "f (JStr ''production'') (JObj []) =
         f (JStr ''production'') (JObj [(''watch'', JBool True)])"
    by (elim exE conjE)
  with f show ?thesis
    by (intro exI [of _ f] exI [of _ cfg]) simp
qed

end
